theory Spec2Isabelle
  imports Complex_Main
begin

section \<open>Glucose-level service: data model\<close>

text \<open>
  Python strings are modelled as \<open>string\<close>, holding the UTF-8 bytes of the text. The
  program only compares strings, tests emptiness and searches for ASCII patterns
  (\<open>'.'\<close>, \<open>'.csv'\<close>, \<open>'desc'\<close>, \<open>'.asc'\<close>, \<open>'.desc'\<close>), and all of these agree on
  code points and on UTF-8 bytes.

  The timestamp type \<open>'t\<close> (Python \<open>datetime\<close>) and the measurement type \<open>'v\<close>
  (Python \<open>float\<close>) are type parameters, and the two library parsers
  \<open>datetime.strptime(_, "%d-%m-%Y %H:%M")\<close> and \<open>float(_)\<close> are function parameters
  \<open>strptime\<close> and \<open>to_float\<close> returning \<open>None\<close> where the library raises
  \<open>ValueError\<close>. The predicate \<open>isnan\<close> (Python \<open>math.isnan\<close>) says which
  measurements are NaN. Every theorem below holds for all such parsers and predicates.
\<close>

text \<open>models.py, class \<open>GlucoseLevel\<close>: every column but the key is nullable.\<close>

record ('t, 'v) GlucoseLevel =
  row_id :: "int option"
  user_id :: "string option"
  timestamp :: "'t option"
  glucose_value :: "'v option"


text \<open>The exceptions that the modelled code can raise or receive.\<close>

datatype exn =
    ValueError
  | AttributeError
  | IndexError
  | UnicodeDecodeError
  | IntegrityError
  | OperationalError
  | HTTPException nat string

type_synonym row = "string list"

text \<open>
  What \<open>content.decode('utf-8')\<close> followed by \<open>csv.reader\<close> gives for an uploaded
  body: either decoding raises, or the reader yields a sequence of rows.
\<close>

datatype upload_body = Undecodable | Rows "row list"

text \<open>
  The outcome of \<open>db.commit()\<close>, decided by the storage engine: success, an integrity
  error, or any other failure.
\<close>

datatype commit_outcome = Committed | CommitIntegrityError | CommitFailure

section \<open>String and list primitives of Python used by the program\<close>

text \<open>\<open>s.endswith(suf)\<close>\<close>

definition endswith :: "string \<Rightarrow> string \<Rightarrow> bool" where
  "endswith s suf \<longleftrightarrow>
     length suf \<le> length s \<and> drop (length s - length suf) s = suf"

text \<open>\<open>s.split(sep)\<close> for a one-character separator: never an empty list.\<close>

fun split_str :: "char \<Rightarrow> string \<Rightarrow> string list" where
  "split_str sep [] = [[]]"
| "split_str sep (c # cs) =
     (if c = sep then [] # split_str sep cs
      else (case split_str sep cs of
              [] \<Rightarrow> [[c]]
            | w # ws \<Rightarrow> (c # w) # ws))"

text \<open>\<open>xs.index(x)\<close>: the first position of \<open>x\<close>; \<open>None\<close> stands for \<open>ValueError\<close>.\<close>

fun index_of :: "'a list \<Rightarrow> 'a \<Rightarrow> nat option" where
  "index_of [] x = None"
| "index_of (y # ys) x =
     (if y = x then Some 0
      else (case index_of ys x of None \<Rightarrow> None | Some i \<Rightarrow> Some (Suc i)))"

text \<open>
  \<open>xs[i]\<close> for a non-negative index (the only ones \<open>index\<close> returns); \<open>None\<close>
  stands for \<open>IndexError\<close>.
\<close>

fun getitem :: "'a list \<Rightarrow> nat \<Rightarrow> 'a option" where
  "getitem [] i = None"
| "getitem (x # xs) 0 = Some x"
| "getitem (x # xs) (Suc i) = getitem xs i"

section \<open>Storage session\<close>

text \<open>
  The table is the list of committed records in insertion order. A request works on a
  fresh session: \<open>db.add\<close> appends to the session's pending list, \<open>db.commit()\<close> writes
  the pending records to the table, giving each the next free key, and a session closed
  without a commit leaves the table as it was.

  The engine is SQLite (models.py, \<open>DATABASE_URL\<close>), and \<open>glucose_value\<close> is a nullable
  \<open>Float\<close> column: SQLite writes a NaN bound to such a column as NULL. \<open>stored\<close> is the
  record as the engine writes it.
\<close>

type_synonym ('t, 'v) table = "('t, 'v) GlucoseLevel list"

definition next_id :: "('t, 'v) table \<Rightarrow> int" where
  "next_id tbl = fold (\<lambda>r m. case row_id r of None \<Rightarrow> m | Some i \<Rightarrow> max i m) tbl 0 + 1"

definition stored :: "('v \<Rightarrow> bool) \<Rightarrow> ('t, 'v) GlucoseLevel \<Rightarrow> ('t, 'v) GlucoseLevel" where
  "stored isnan r =
     (case glucose_value r of
        None \<Rightarrow> r
      | Some v \<Rightarrow> if isnan v then r\<lparr>glucose_value := None\<rparr> else r)"

fun commit ::
  "('v \<Rightarrow> bool) \<Rightarrow> ('t, 'v) table \<Rightarrow> ('t, 'v) GlucoseLevel list \<Rightarrow> ('t, 'v) table" where
  "commit isnan tbl [] = tbl"
| "commit isnan tbl (r # rs) =
     commit isnan (tbl @ [(stored isnan r)\<lparr>row_id := Some (next_id tbl)\<rparr>]) rs"

section \<open>main.py: \<open>load_data\<close>\<close>

definition timestamp_column :: string where
  "timestamp_column =
     ''Ger'' @ [CHR 0xC3, CHR 0x83, CHR 0xC2, CHR 0xA4] @ ''tezeitstempel''"

definition glucose_column :: string where
  "glucose_column = ''Glukosewert-Verlauf mg/dL''"

text \<open>
  Lines 95-99: the first loop over the reader. It returns the header, if a row of 19
  fields exists, and the rows the reader has not yet yielded.
\<close>

fun find_header :: "row list \<Rightarrow> row option \<times> row list" where
  "find_header [] = (None, [])"
| "find_header (r # rs) = (if length r = 19 then (Some r, rs) else find_header rs)"

text \<open>
  Lines 108-125: the second loop. Field extraction is outside the inner \<open>try\<close>, so an
  \<open>IndexError\<close> leaves the loop; a \<open>ValueError\<close> of either parser is caught and the
  loop goes on with the next row.
\<close>

fun process_rows ::
  "(string \<Rightarrow> 't option) \<Rightarrow> (string \<Rightarrow> 'v option) \<Rightarrow> string \<Rightarrow> nat \<Rightarrow> nat \<Rightarrow>
   row list \<Rightarrow> ('t, 'v) GlucoseLevel list \<Rightarrow> exn + ('t, 'v) GlucoseLevel list" where
  "process_rows strptime to_float uid ti gi [] pending = Inr pending"
| "process_rows strptime to_float uid ti gi (r # rs) pending =
     (case getitem r ti of
        None \<Rightarrow> Inl IndexError
      | Some timestamp_str \<Rightarrow>
     (case getitem r gi of
        None \<Rightarrow> Inl IndexError
      | Some glucose_value_str \<Rightarrow>
          if timestamp_str \<noteq> [] \<and> glucose_value_str \<noteq> [] then
            (case strptime timestamp_str of
               None \<Rightarrow> process_rows strptime to_float uid ti gi rs pending
             | Some t \<Rightarrow>
            (case to_float glucose_value_str of
               None \<Rightarrow> process_rows strptime to_float uid ti gi rs pending
             | Some g \<Rightarrow>
                 process_rows strptime to_float uid ti gi rs
                   (pending @ [\<lparr>row_id = None, user_id = Some uid,
                                timestamp = Some t, glucose_value = Some g\<rparr>])))
          else process_rows strptime to_float uid ti gi rs pending))"

text \<open>
  Lines 86-128: the body of the outer \<open>try\<close>. It returns the exception that leaves the
  block or the success message, and the table afterwards.
\<close>

definition load_data_try ::
  "('v \<Rightarrow> bool) \<Rightarrow> (string \<Rightarrow> 't option) \<Rightarrow> (string \<Rightarrow> 'v option) \<Rightarrow> string \<Rightarrow>
   upload_body \<Rightarrow> commit_outcome \<Rightarrow> ('t, 'v) table \<Rightarrow> (exn + string) \<times> ('t, 'v) table" where
  "load_data_try isnan strptime to_float filename body co tbl =
     (let uid = hd (split_str CHR ''.'' filename) in
      case body of
        Undecodable \<Rightarrow> (Inl UnicodeDecodeError, tbl)
      | Rows rows \<Rightarrow>
     (case find_header rows of
        (None, rest) \<Rightarrow> (Inl AttributeError, tbl)
      | (Some headers, rest) \<Rightarrow>
     (case index_of headers timestamp_column of
        None \<Rightarrow> (Inl (HTTPException 400 ''Required columns not found in CSV file''), tbl)
      | Some ti \<Rightarrow>
     (case index_of headers glucose_column of
        None \<Rightarrow> (Inl (HTTPException 400 ''Required columns not found in CSV file''), tbl)
      | Some gi \<Rightarrow>
     (case process_rows strptime to_float uid ti gi rest [] of
        Inl e \<Rightarrow> (Inl e, tbl)
      | Inr pending \<Rightarrow>
     (case co of
        Committed \<Rightarrow> (Inr ''Data loaded successfully'', commit isnan tbl pending)
      | CommitIntegrityError \<Rightarrow> (Inl IntegrityError, tbl)
      | CommitFailure \<Rightarrow> (Inl OperationalError, tbl)))))))"

text \<open>
  Lines 77-132: the endpoint. The extension check is before the \<open>try\<close>; the handler
  \<open>except Exception\<close> turns every exception leaving the block, an \<open>HTTPException\<close>
  raised inside it included, into the 500 response.
\<close>

definition load_data ::
  "('v \<Rightarrow> bool) \<Rightarrow> (string \<Rightarrow> 't option) \<Rightarrow> (string \<Rightarrow> 'v option) \<Rightarrow> string \<Rightarrow>
   upload_body \<Rightarrow> commit_outcome \<Rightarrow> ('t, 'v) table \<Rightarrow> (exn + string) \<times> ('t, 'v) table" where
  "load_data isnan strptime to_float filename body co tbl =
     (if \<not> endswith filename ''.csv'' then
        (Inl (HTTPException 400 ''Unsupported file format''), tbl)
      else
        (case load_data_try isnan strptime to_float filename body co tbl of
           (Inl e, tbl') \<Rightarrow>
             (Inl (HTTPException 500 ''An error occurred while processing the file''), tbl')
         | (Inr msg, tbl') \<Rightarrow> (Inr msg, tbl')))"

section \<open>main.py: \<open>create_glucose_level\<close>\<close>


section \<open>main.py: the query built by \<open>get_glucose_levels\<close>\<close>

text \<open>\<open>sub in s\<close> on strings.\<close>

fun contains_str :: "string \<Rightarrow> string \<Rightarrow> bool" where
  "contains_str sub [] = (sub = [])"
| "contains_str sub (c # cs) = (take (length sub) (c # cs) = sub \<or> contains_str sub cs)"

text \<open>
  \<open>s.replace(old, new)\<close>: the occurrences of \<open>old\<close> are found from the left and do
  not overlap; the text produced by a replacement is not searched again.
\<close>

fun replace_str :: "string \<Rightarrow> string \<Rightarrow> string \<Rightarrow> string" where
  "replace_str old new [] = (if old = [] then new else [])"
| "replace_str old new (c # cs) =
     (if old = [] then new @ c # replace_str old new cs
      else if take (length old) (c # cs) = old
        then new @ replace_str old new (drop (length old) (c # cs))
      else c # replace_str old new cs)"

text \<open>\<open>sqlalchemy.asc\<close> and \<open>sqlalchemy.desc\<close>.\<close>

datatype direction = Asc | Desc

datatype 't criterion = UserIdEq string | TimestampGe 't | TimestampLe 't

text \<open>
  The query object as the endpoint leaves it before \<open>query.all()\<close>: the filters in
  the order they were added, the ordering if one was requested, offset and limit.
\<close>

record 't query =
  q_filters :: "'t criterion list"
  q_order_by :: "(direction \<times> string) option"
  q_offset :: "int option"
  q_limit :: "int option"

text \<open>Line 53, on the request parameter \<open>sort\<close>.\<close>

definition sort_direction :: "string \<Rightarrow> direction" where
  "sort_direction sort_str = (if contains_str ''desc'' sort_str then Desc else Asc)"

text \<open>Line 54.\<close>

definition sort_column :: "string \<Rightarrow> string" where
  "sort_column sort_str = replace_str ''.desc'' [] (replace_str ''.asc'' [] sort_str)"

text \<open>
  Lines 46-60. \<open>hasattr\<close> stands for \<open>hasattr(GlucoseLevel, _)\<close>: the class has the
  four columns and whatever it inherits from the declarative base, so the set of its
  attribute names is a parameter.
\<close>

definition get_glucose_levels_query ::
  "(string \<Rightarrow> bool) \<Rightarrow> string \<Rightarrow> 't option \<Rightarrow> 't option \<Rightarrow> int \<Rightarrow> int \<Rightarrow> string \<Rightarrow>
   't query" where
  "get_glucose_levels_query hasattr uid start stop page page_size sort_str =
     (let q0 = \<lparr>q_filters = [UserIdEq uid], q_order_by = None,
                q_offset = None, q_limit = None\<rparr>;
          q1 = (case start of
                  None \<Rightarrow> q0
                | Some t \<Rightarrow> q0\<lparr>q_filters := q_filters q0 @ [TimestampGe t]\<rparr>);
          q2 = (case stop of
                  None \<Rightarrow> q1
                | Some t \<Rightarrow> q1\<lparr>q_filters := q_filters q1 @ [TimestampLe t]\<rparr>);
          q3 = (if hasattr (sort_column sort_str)
                then q2\<lparr>q_order_by := Some (sort_direction sort_str, sort_column sort_str)\<rparr>
                else q2);
          offset = (page - 1) * page_size
      in q3\<lparr>q_offset := Some offset, q_limit := Some page_size\<rparr>)"

section \<open>Sample inputs\<close>

text \<open>
  Concrete inputs on which the theorems below are evaluated: a header of 19 fields
  with the two required names at positions 4 and 7, rows of 19 fields with given
  timestamp and value fields, two finite fragments of the library parsers and a
  measurement type with a NaN (the theorems themselves hold for every parser).
\<close>

definition example_headers :: row where
  "example_headers =
     [''c0'', ''c1'', ''c2'', ''c3'', timestamp_column, ''c5'', ''c6'', glucose_column,
      ''c8'', ''c9'', ''c10'', ''c11'', ''c12'', ''c13'', ''c14'', ''c15'', ''c16'',
      ''c17'', ''c18'']"

definition example_row :: "string \<Rightarrow> string \<Rightarrow> row" where
  "example_row ts gv =
     [''FreeStyle'', ''SN1'', ''x'', ''0'', ts, [], ''0'', gv,
      [], [], [], [], [], [], [], [], [], [], []]"

definition example_strptime :: "string \<Rightarrow> (nat \<times> nat \<times> nat \<times> nat \<times> nat) option" where
  "example_strptime =
     map_of [(''14-02-2021 10:30'', (2021, 2, 14, 10, 30)),
             (''14-02-2021 10:45'', (2021, 2, 14, 10, 45))]"

datatype example_float = Number real | NaN

definition example_to_float :: "string \<Rightarrow> example_float option" where
  "example_to_float =
     map_of [(''105'', Number 105), (''98.5'', Number 98.5), (''nan'', NaN)]"

definition example_isnan :: "example_float \<Rightarrow> bool" where
  "example_isnan v \<longleftrightarrow> v = NaN"

section \<open>Auxiliary facts\<close>

subsection \<open>The list primitives against their specifications\<close>

text \<open>
  Indexing succeeds exactly below the length, \<open>index\<close> returns the first position of
  an element and fails exactly when it is absent, and the first piece of a split is the
  text before the first separator.
\<close>

lemma getitem_eq: "getitem xs i = (if i < length xs then Some (xs ! i) else None)"
  by (induction xs i rule: getitem.induct) auto

lemma index_of_Some_iff:
  "index_of xs x = Some i \<longleftrightarrow> i < length xs \<and> xs ! i = x \<and> (\<forall>j<i. xs ! j \<noteq> x)"
proof (induction xs arbitrary: i)
  case Nil
  then show ?case by simp
next
  case (Cons y ys)
  show ?case
  proof (cases "y = x")
    case True
    then show ?thesis by (cases i) auto
  next
    case False
    show ?thesis
    proof (cases i)
      case 0
      with False show ?thesis by (auto split: option.splits)
    next
      case (Suc k)
      have "(\<forall>j<Suc k. (y # ys) ! j \<noteq> x) \<longleftrightarrow> (\<forall>j<k. ys ! j \<noteq> x)"
        using False by (auto simp: less_Suc_eq_0_disj)
      with False Suc Cons.IH [of k] show ?thesis
        by (auto split: option.splits)
    qed
  qed
qed

lemma index_of_None_iff: "index_of xs x = None \<longleftrightarrow> x \<notin> set xs"
  by (induction xs) (auto split: option.splits)

lemma split_str_nonempty: "split_str sep s \<noteq> []"
  by (induction s) (auto split: list.splits)

lemma hd_split_str: "hd (split_str sep s) = takeWhile (\<lambda>c. c \<noteq> sep) s"
  by (induction s) (auto simp: split_str_nonempty split: list.splits)

subsection \<open>The header search\<close>

lemma find_header_skip:
  "\<forall>r\<in>set pre. length r \<noteq> 19 \<Longrightarrow> find_header (pre @ rs) = find_header rs"
  by (induction pre) auto

lemma find_header_none:
  "\<forall>r\<in>set rows. length r \<noteq> 19 \<Longrightarrow> find_header rows = (None, [])"
  by (induction rows) auto


subsection \<open>The row loop and the commit\<close>

text \<open>
  The loop over a concatenation runs the first part and, unless that raised, the second
  part from the pending records reached. A row without a field at a resolved position
  makes the loop raise; without such rows it returns one pending record per accepted row.
\<close>

lemma process_rows_append:
  "process_rows sp fl uid ti gi (xs @ ys) pending =
     (case process_rows sp fl uid ti gi xs pending of
        Inl e \<Rightarrow> Inl e
      | Inr p \<Rightarrow> process_rows sp fl uid ti gi ys p)"
  by (induction xs arbitrary: pending) (auto split: option.splits)

lemma process_rows_short:
  "\<exists>r\<in>set rows. length r \<le> ti \<or> length r \<le> gi \<Longrightarrow>
   process_rows sp fl uid ti gi rows pending = Inl IndexError"
  by (induction rows arbitrary: pending) (auto simp: getitem_eq split: option.splits)


lemma process_rows_long:
  "\<forall>r\<in>set rows. ti < length r \<and> gi < length r \<Longrightarrow>
   process_rows sp fl uid ti gi rows pending =
     Inr (pending @
          map (\<lambda>r. \<lparr>row_id = None, user_id = Some uid,
                     timestamp = sp (r ! ti), glucose_value = fl (r ! gi)\<rparr>)
            (filter (\<lambda>r. r ! ti \<noteq> [] \<and> r ! gi \<noteq> [] \<and> sp (r ! ti) \<noteq> None \<and> fl (r ! gi) \<noteq> None)
               rows))"
  by (induction rows arbitrary: pending) (auto simp: getitem_eq split: option.splits)

lemma stored_fields:
  "user_id (stored isnan r) = user_id r" "timestamp (stored isnan r) = timestamp r"
  "glucose_value (stored isnan r) =
     (case glucose_value r of None \<Rightarrow> None | Some v \<Rightarrow> if isnan v then None else Some v)"
  by (simp_all add: stored_def split: option.splits)

lemma commit_append:
  "\<exists>new. commit isnan tbl pending = tbl @ new \<and>
         map user_id new = map user_id pending \<and>
         map timestamp new = map timestamp pending \<and>
         map glucose_value new = map (\<lambda>r. glucose_value (stored isnan r)) pending"
proof (induction pending arbitrary: tbl)
  case Nil
  then show ?case by simp
next
  case (Cons r rs)
  let ?r' = "(stored isnan r)\<lparr>row_id := Some (next_id tbl)\<rparr>"
  from Cons [of "tbl @ [?r']"] obtain new where
    new: "commit isnan (tbl @ [?r']) rs = (tbl @ [?r']) @ new"
      "map user_id new = map user_id rs"
      "map timestamp new = map timestamp rs"
      "map glucose_value new = map (\<lambda>r. glucose_value (stored isnan r)) rs"
    by blast
  show ?case
    by (rule exI [of _ "?r' # new"]) (simp add: new stored_fields(1,2))
qed

lemma process_rows_skip:
  assumes "getitem r ti = Some ts" "getitem r gi = Some gs"
    and "ts = [] \<or> gs = [] \<or> sp ts = None \<or> fl gs = None"
  shows "process_rows sp fl uid ti gi (r # rs) pending = process_rows sp fl uid ti gi rs pending"
  using assms by (auto split: option.splits)

lemma load_data_skip_row:
  assumes pre: "\<forall>r\<in>set pre. length r \<noteq> 19" and h: "length headers = 19"
    and skip: "\<And>pending. process_rows sp fl (hd (split_str CHR ''.'' filename)) ti gi (r # after) pending
               = process_rows sp fl (hd (split_str CHR ''.'' filename)) ti gi after pending"
    and ti: "index_of headers timestamp_column = Some ti"
    and gi: "index_of headers glucose_column = Some gi"
  shows "load_data isnan sp fl filename (Rows (pre @ headers # before @ r # after)) co tbl =
         load_data isnan sp fl filename (Rows (pre @ headers # before @ after)) co tbl"
proof -
  have fh: "\<And>rest. find_header (pre @ headers # rest) = (Some headers, rest)"
    using pre h by (simp add: find_header_skip)
  have "process_rows sp fl (hd (split_str CHR ''.'' filename)) ti gi (before @ r # after) []
      = process_rows sp fl (hd (split_str CHR ''.'' filename)) ti gi (before @ after) []"
    by (simp add: process_rows_append skip del: process_rows.simps split: sum.splits)
  then show ?thesis
    by (simp add: load_data_def load_data_try_def fh ti gi)
qed

subsection \<open>Substring test and replacement\<close>

text \<open>
  \<open>contains_str\<close> is the substring relation. \<open>replace_str\<close> leaves a string without
  occurrence unchanged and otherwise rewrites the leftmost occurrence and goes on behind
  it, which is how \<open>str.replace\<close> is specified.
\<close>

lemma contains_str_iff: "contains_str sub s \<longleftrightarrow> (\<exists>u v. s = u @ sub @ v)"
proof (induction s)
  case Nil
  then show ?case by auto
next
  case (Cons c cs)
  show ?case
  proof
    assume "contains_str sub (c # cs)"
    then consider "take (length sub) (c # cs) = sub" | "contains_str sub cs" by auto
    then show "\<exists>u v. c # cs = u @ sub @ v"
    proof cases
      case 1
      then have "c # cs = [] @ sub @ drop (length sub) (c # cs)"
        by (metis append_Nil append_take_drop_id)
      then show ?thesis by blast
    next
      case 2
      with Cons obtain u v where "cs = u @ sub @ v" by blast
      then have "c # cs = (c # u) @ sub @ v" by simp
      then show ?thesis by blast
    qed
  next
    assume "\<exists>u v. c # cs = u @ sub @ v"
    then obtain u v where uv: "c # cs = u @ sub @ v" by blast
    show "contains_str sub (c # cs)"
    proof (cases u)
      case Nil
      with uv have "take (length sub) (c # cs) = sub" by simp
      then show ?thesis by simp
    next
      case (Cons a u')
      with uv have "cs = u' @ sub @ v" by simp
      with Cons.IH show ?thesis by auto
    qed
  qed
qed

lemma replace_str_absent:
  "\<not> contains_str old s \<Longrightarrow> replace_str old new s = s"
  by (induction s) auto

subsection \<open>Evaluating the sample inputs\<close>

lemmas example_defs =
  load_data_def load_data_try_def endswith_def example_headers_def example_row_def
  timestamp_column_def glucose_column_def example_strptime_def example_to_float_def
  example_isnan_def stored_def next_id_def Let_def

lemma example_headers_length: "length example_headers = 19"
  by (simp add: example_headers_def)

lemma example_headers_timestamp: "index_of example_headers timestamp_column = Some 4"
  by (simp add: example_headers_def timestamp_column_def glucose_column_def)

lemma example_headers_glucose: "index_of example_headers glucose_column = Some 7"
  by (simp add: example_headers_def timestamp_column_def glucose_column_def)

lemma example_row_length: "length (example_row ts gv) = 19"
  by (simp add: example_row_def)

lemma example_row_fields:
  "getitem (example_row ts gv) 4 = Some ts" "getitem (example_row ts gv) 7 = Some gv"
  by (simp_all add: example_row_def getitem_eq)

subsection \<open>Whole requests\<close>

lemma load_data_missing_columns:
  assumes "endswith filename ''.csv''" "\<forall>r\<in>set pre. length r \<noteq> 19" "length headers = 19"
    and "timestamp_column \<notin> set headers \<or> glucose_column \<notin> set headers"
  shows "load_data isnan strptime to_float filename (Rows (pre @ headers # rest)) co tbl =
     (Inl (HTTPException 500 ''An error occurred while processing the file''), tbl)"
proof -
  have "find_header (pre @ headers # rest) = (Some headers, rest)"
    using assms(2,3) by (simp add: find_header_skip)
  moreover have "index_of headers timestamp_column = None \<or> index_of headers glucose_column = None"
    using assms(4) by (simp add: index_of_None_iff)
  ultimately show ?thesis
    using assms(1) by (auto simp: load_data_def load_data_try_def split: option.splits)
qed

lemma load_data_no_header:
  assumes "endswith filename ''.csv''" and "\<forall>r\<in>set rows. length r \<noteq> 19"
  shows "load_data_try isnan strptime to_float filename (Rows rows) co tbl =
           (Inl AttributeError, tbl)"
    and "load_data isnan strptime to_float filename (Rows rows) co tbl =
           (Inl (HTTPException 500 ''An error occurred while processing the file''), tbl)"
  using assms by (simp_all add: load_data_def load_data_try_def find_header_none)

subsection \<open>Replacement at the leftmost occurrence, and on plain column names\<close>

lemma replace_str_leftmost:
  assumes "old \<noteq> []" and "\<not> contains_str old (u @ butlast old)"
  shows "replace_str old new (u @ old @ v) = u @ new @ replace_str old new v"
  using assms(2)
proof (induction u)
  case Nil
  obtain a as where old: "old = a # as" using assms(1) by (cases old) auto
  then show ?case by simp
next
  case (Cons c u)
  have ne: "take (length old) (c # u @ old @ v) \<noteq> old"
  proof
    assume t: "take (length old) (c # u @ old @ v) = old"
    have len: "length old \<le> length ((c # u) @ butlast old)"
      using assms(1) by simp
    have "(c # u) @ old @ v = ((c # u) @ butlast old) @ (last old # v)"
      using assms(1) by simp
    then have "take (length old) ((c # u) @ old @ v) =
               take (length old) (((c # u) @ butlast old) @ (last old # v))"
      by (rule arg_cong)
    also have "\<dots> = take (length old) ((c # u) @ butlast old)"
      using len by (simp only: take_append) simp
    finally have "take (length old) ((c # u) @ butlast old) = take (length old) ((c # u) @ old @ v)"
      by (rule sym)
    with t have "take (length old) ((c # u) @ butlast old) = old" by simp
    then have "(c # u) @ butlast old = [] @ old @ drop (length old) ((c # u) @ butlast old)"
      by (metis append_Nil append_take_drop_id)
    then have "contains_str old ((c # u) @ butlast old)"
      unfolding contains_str_iff by blast
    with Cons.prems show False by simp
  qed
  have "\<not> contains_str old (u @ butlast old)"
    using Cons.prems by simp
  from Cons.IH [OF this] ne assms(1) show ?case by simp
qed

lemma replace_str_keep:
  "CHR ''.'' \<notin> set s \<Longrightarrow> hd old = CHR ''.'' \<Longrightarrow> old \<noteq> [] \<Longrightarrow>
   replace_str old new (s @ t) = s @ replace_str old new t"
proof (induction s)
  case Nil
  then show ?case by simp
next
  case (Cons c cs)
  have "take (length old) (c # cs @ t) \<noteq> old"
  proof
    assume "take (length old) (c # cs @ t) = old"
    then have "hd old = c" using Cons.prems(3) by (cases old) auto
    with Cons.prems show False by simp
  qed
  with Cons show ?case by simp
qed

lemma sort_column_plain:
  assumes "CHR ''.'' \<notin> set col"
  shows "sort_column col = col \<and> sort_column (col @ ''.asc'') = col \<and>
         sort_column (col @ ''.desc'') = col"
proof -
  have k: "replace_str ''.asc'' [] (col @ t) = col @ replace_str ''.asc'' [] t"
          "replace_str ''.desc'' [] (col @ t) = col @ replace_str ''.desc'' [] t" for t
    using assms by (simp_all add: replace_str_keep)
  have "sort_column (col @ []) = col"
    unfolding sort_column_def by (simp only: k) simp
  moreover have "sort_column (col @ ''.asc'') = col"
    unfolding sort_column_def by (simp only: k) simp
  moreover have "sort_column (col @ ''.desc'') = col"
    unfolding sort_column_def by (simp only: k) simp
  ultimately show ?thesis by simp
qed

subsection \<open>The fields of the records added\<close>




section \<open>Properties of the endpoints\<close>

text \<open>
  C1, as the code has it. For a \<open>.csv\<close> upload whose first 19-field row holds both
  required column names, and in which every later row has a field at both resolved
  positions, a successful commit answers with the success message and appends to the
  table, in file order, exactly one record for each later row whose two fields are
  non-empty and accepted by the parsers, and none for the other rows. Each record has
  the parsed timestamp, the parsed value as the engine stores it, and as \<open>user_id\<close>
  the file name up to its first \<open>'.'\<close>.
\<close>

theorem valid_rows_persisted_once:
  assumes "endswith filename ''.csv''"
    and "\<forall>r\<in>set pre. length r \<noteq> 19" and "length headers = 19"
    and "index_of headers timestamp_column = Some ti"
    and "index_of headers glucose_column = Some gi"
    and "\<forall>r\<in>set rest. ti < length r \<and> gi < length r"
    and "accepted = filter (\<lambda>r. r ! ti \<noteq> [] \<and> r ! gi \<noteq> [] \<and>
                              strptime (r ! ti) \<noteq> None \<and> to_float (r ! gi) \<noteq> None) rest"
  shows "\<exists>new. load_data isnan strptime to_float filename (Rows (pre @ headers # rest)) Committed tbl =
                 (Inr ''Data loaded successfully'', tbl @ new) \<and>
               map user_id new =
                 map (\<lambda>r. Some (takeWhile (\<lambda>c. c \<noteq> CHR ''.'') filename)) accepted \<and>
               map timestamp new = map (\<lambda>r. strptime (r ! ti)) accepted \<and>
               map glucose_value new =
                 map (\<lambda>r. case to_float (r ! gi) of
                            None \<Rightarrow> None
                          | Some v \<Rightarrow> if isnan v then None else Some v) accepted"
proof -
  let ?uid = "hd (split_str CHR ''.'' filename)"
  let ?pending = "map (\<lambda>r. \<lparr>row_id = None, user_id = Some ?uid,
                     timestamp = strptime (r ! ti), glucose_value = to_float (r ! gi)\<rparr>) accepted"
  have fh: "find_header (pre @ headers # rest) = (Some headers, rest)"
    using assms(2,3) by (simp add: find_header_skip)
  have pr: "process_rows strptime to_float ?uid ti gi rest [] = Inr ?pending"
    using process_rows_long [OF assms(6), of strptime to_float ?uid "[]"] assms(7) by simp
  obtain new where new: "commit isnan tbl ?pending = tbl @ new"
      "map user_id new = map user_id ?pending"
      "map timestamp new = map timestamp ?pending"
      "map glucose_value new = map (\<lambda>r. glucose_value (stored isnan r)) ?pending"
    using commit_append [of isnan tbl ?pending] by blast
  have "load_data isnan strptime to_float filename (Rows (pre @ headers # rest)) Committed tbl =
          (Inr ''Data loaded successfully'', tbl @ new)"
    using assms(1,4,5) fh pr new(1) by (simp add: load_data_def load_data_try_def)
  moreover have "map user_id new =
      map (\<lambda>r. Some (takeWhile (\<lambda>c. c \<noteq> CHR ''.'') filename)) accepted"
    using new(2) by (simp add: hd_split_str o_def)
  moreover have "map timestamp new = map (\<lambda>r. strptime (r ! ti)) accepted"
    using new(3) by (simp add: o_def)
  moreover have "map glucose_value new =
      map (\<lambda>r. case to_float (r ! gi) of
                 None \<Rightarrow> None
               | Some v \<Rightarrow> if isnan v then None else Some v) accepted"
    using new(4) by (simp add: o_def stored_fields)
  ultimately show ?thesis by blast
qed

theorem valid_rows_persisted_once_witness:
  "endswith ''alice.csv'' ''.csv'' \<and> length [''Glukose-Werte''] \<noteq> 19 \<and>
   length example_headers = 19 \<and>
   index_of example_headers timestamp_column = Some 4 \<and>
   index_of example_headers glucose_column = Some 7 \<and>
   (\<exists>new. load_data example_isnan example_strptime example_to_float ''alice.csv''
            (Rows ([[''Glukose-Werte'']] @ example_headers #
                   [example_row ''14-02-2021 10:30'' ''105'',
                    example_row ''14-02-2021 10:45'' [],
                    example_row ''2021/02/14'' ''98.5''])) Committed [] =
            (Inr ''Data loaded successfully'', new) \<and>
          map user_id new = [Some ''alice''] \<and>
          map timestamp new = [Some (2021, 2, 14, 10, 30)] \<and>
          map glucose_value new = [Some (Number 105)])"
proof -
  let ?rest = "[example_row ''14-02-2021 10:30'' ''105'',
                example_row ''14-02-2021 10:45'' [],
                example_row ''2021/02/14'' ''98.5'']"
  have a: "endswith ''alice.csv'' ''.csv''"
    by (simp add: endswith_def)
  have b: "\<forall>r\<in>set [[''Glukose-Werte'']]. length r \<noteq> 19"
    by simp
  have l: "\<forall>r\<in>set ?rest. 4 < length r \<and> 7 < length r"
    by (simp add: example_row_length)
  have f: "[example_row ''14-02-2021 10:30'' ''105''] =
     filter (\<lambda>r. r ! 4 \<noteq> [] \<and> r ! 7 \<noteq> [] \<and>
                 example_strptime (r ! 4) \<noteq> None \<and> example_to_float (r ! 7) \<noteq> None) ?rest"
    by (simp add: example_row_def example_strptime_def example_to_float_def)
  from valid_rows_persisted_once [OF a b example_headers_length example_headers_timestamp
      example_headers_glucose l f, of example_isnan "[]"]
  obtain new where
    "load_data example_isnan example_strptime example_to_float ''alice.csv''
       (Rows ([[''Glukose-Werte'']] @ example_headers # ?rest)) Committed [] =
       (Inr ''Data loaded successfully'', [] @ new)"
    "map user_id new = map (\<lambda>r. Some (takeWhile (\<lambda>c. c \<noteq> CHR ''.'') ''alice.csv''))
        [example_row ''14-02-2021 10:30'' ''105'']"
    "map timestamp new = map (\<lambda>r. example_strptime (r ! 4)) [example_row ''14-02-2021 10:30'' ''105'']"
    "map glucose_value new =
       map (\<lambda>r. case example_to_float (r ! 7) of
                  None \<Rightarrow> None
                | Some v \<Rightarrow> if example_isnan v then None else Some v)
         [example_row ''14-02-2021 10:30'' ''105'']"
    by blast
  then have "load_data example_isnan example_strptime example_to_float ''alice.csv''
       (Rows ([[''Glukose-Werte'']] @ example_headers # ?rest)) Committed [] =
       (Inr ''Data loaded successfully'', new) \<and>
     map user_id new = [Some ''alice''] \<and>
     map timestamp new = [Some (2021, 2, 14, 10, 30)] \<and>
     map glucose_value new = [Some (Number 105)]"
    by (simp add: example_row_def example_strptime_def example_to_float_def example_isnan_def)
  then show ?thesis
    using a by (intro conjI exI [of _ new])
      (simp_all add: example_headers_length example_headers_timestamp example_headers_glucose)
qed

text \<open>
  The claim C1 as stated fails: a file with the header, a valid row and an empty row
  (a blank line) persists nothing, although the valid row's fields parse.
\<close>

theorem valid_row_lost_counterexample:
  "endswith ''alice.csv'' ''.csv'' \<and> length example_headers = 19 \<and>
   index_of example_headers timestamp_column = Some 4 \<and>
   index_of example_headers glucose_column = Some 7 \<and>
   example_strptime (example_row ''14-02-2021 10:30'' ''105'' ! 4) = Some (2021, 2, 14, 10, 30) \<and>
   example_to_float (example_row ''14-02-2021 10:30'' ''105'' ! 7) = Some (Number 105) \<and>
   load_data example_isnan example_strptime example_to_float ''alice.csv''
       (Rows [example_headers, example_row ''14-02-2021 10:30'' ''105'', []]) Committed [] =
     (Inl (HTTPException 500 ''An error occurred while processing the file''), [])"
  by (simp add: example_defs)

text \<open>
  C2, at a failing input. The header has 19 fields and lacks the glucose-value column.
  Inside the \<open>try\<close> the code raises the 400 "Required columns not found" exception, but
  the enclosing handler catches it and the request is answered with the 500 error; the
  table is unchanged.
\<close>

theorem missing_column_answered_with_500:
  "length (example_headers[7 := ''Glukosewert'']) = 19 \<and>
   glucose_column \<notin> set (example_headers[7 := ''Glukosewert'']) \<and>
   load_data_try example_isnan example_strptime example_to_float ''alice.csv''
       (Rows [example_headers[7 := ''Glukosewert''], example_row ''14-02-2021 10:30'' ''105''])
       Committed [] =
     (Inl (HTTPException 400 ''Required columns not found in CSV file''), []) \<and>
   load_data example_isnan example_strptime example_to_float ''alice.csv''
       (Rows [example_headers[7 := ''Glukosewert''], example_row ''14-02-2021 10:30'' ''105''])
       Committed [] =
     (Inl (HTTPException 500 ''An error occurred while processing the file''), [])"
  by (simp add: example_defs)

text \<open>
  C7. A file whose name does not end with \<open>.csv\<close> is rejected with the 400
  unsupported-format error whatever its body is (the body is never looked at, not even
  decoded), and the table is left unchanged.
\<close>

theorem load_data_rejects_other_extensions:
  "\<not> endswith filename ''.csv'' \<Longrightarrow>
   load_data isnan strptime to_float filename body co tbl =
     (Inl (HTTPException 400 ''Unsupported file format''), tbl)"
  by (simp add: load_data_def)

theorem load_data_rejects_other_extensions_witness:
  "\<not> endswith ''bob.txt'' ''.csv'' \<and>
   load_data (\<lambda>v. False) (\<lambda>s. None :: nat option) (\<lambda>s. None :: int option) ''bob.txt''
       Undecodable Committed [] =
     (Inl (HTTPException 400 ''Unsupported file format''), [])"
proof -
  have h: "\<not> endswith ''bob.txt'' ''.csv''"
    by (simp add: endswith_def)
  show ?thesis
    using h load_data_rejects_other_extensions [OF h] by simp
qed

text \<open>
  C6. The header is the first row, in file order, with exactly 19 fields: whatever the
  rows before it contain, the header search returns that row and the rows after it, and
  the whole request has the result it would have without the preceding rows, so these
  never produce a record.
\<close>

theorem header_is_first_row_of_19_fields:
  "\<forall>r\<in>set pre. length r \<noteq> 19 \<Longrightarrow> length headers = 19 \<Longrightarrow>
   find_header (pre @ headers # rest) = (Some headers, rest) \<and>
   load_data isnan strptime to_float filename (Rows (pre @ headers # rest)) co tbl =
     load_data isnan strptime to_float filename (Rows (headers # rest)) co tbl"
  by (simp add: find_header_skip load_data_def load_data_try_def)

theorem header_is_first_row_of_19_fields_witness:
  "length [''Glukose-Werte'', ''Erstellt am''] \<noteq> 19 \<and>
   length (example_row ''14-02-2021 10:30'' ''105'' @ [''extra'']) \<noteq> 19 \<and>
   length example_headers = 19 \<and>
   find_header ([[''Glukose-Werte'', ''Erstellt am''], example_row ''14-02-2021 10:30'' ''105'' @ [''extra'']]
       @ example_headers # [example_row ''14-02-2021 10:45'' ''98.5''])
     = (Some example_headers, [example_row ''14-02-2021 10:45'' ''98.5'']) \<and>
   snd (load_data example_isnan example_strptime example_to_float ''alice.csv''
     (Rows ([[''Glukose-Werte'', ''Erstellt am''], example_row ''14-02-2021 10:30'' ''105'' @ [''extra'']]
       @ example_headers # [example_row ''14-02-2021 10:45'' ''98.5''])) Committed [])
     = [\<lparr>row_id = Some 1, user_id = Some ''alice'',
         timestamp = Some (2021, 2, 14, 10, 45), glucose_value = Some (Number 98.5)\<rparr>]"
proof -
  let ?pre = "[[''Glukose-Werte'', ''Erstellt am''], example_row ''14-02-2021 10:30'' ''105'' @ [''extra'']]"
  have p: "\<forall>r\<in>set ?pre. length r \<noteq> 19"
    by (simp add: example_row_length)
  have e: "snd (load_data example_isnan example_strptime example_to_float ''alice.csv''
     (Rows (example_headers # [example_row ''14-02-2021 10:45'' ''98.5''])) Committed [])
     = [\<lparr>row_id = Some 1, user_id = Some ''alice'',
         timestamp = Some (2021, 2, 14, 10, 45), glucose_value = Some (Number 98.5)\<rparr>]"
    by (simp add: example_defs)
  from header_is_first_row_of_19_fields [OF p example_headers_length,
      of "[example_row ''14-02-2021 10:45'' ''98.5'']" example_isnan example_strptime example_to_float
         "''alice.csv''" Committed "[]"]
  show ?thesis using p e by (simp add: example_headers_length example_row_length)
qed


text \<open>
  C5, at a failing input. The file \<open>carol.csv\<close> has no row of 19 fields. \<open>headers\<close>
  stays \<open>None\<close> and \<open>headers.index\<close> raises \<open>AttributeError\<close>, which the handler for
  missing columns (\<open>except ValueError\<close>) does not catch: the request is answered with
  the general 500 error, not with the "Required columns not found" failure that a header
  without the columns raises. Nothing is persisted.
\<close>

theorem no_header_row_answered_with_general_500:
  "length [''Glukose-Werte''] \<noteq> 19 \<and> length [''14-02-2021 10:30'', ''105''] \<noteq> 19 \<and>
   load_data_try example_isnan example_strptime example_to_float ''carol.csv''
       (Rows [[''Glukose-Werte''], [''14-02-2021 10:30'', ''105'']]) Committed [] =
     (Inl AttributeError, []) \<and>
   load_data_try example_isnan example_strptime example_to_float ''carol.csv''
       (Rows [[''Glukose-Werte''], [''14-02-2021 10:30'', ''105'']]) Committed [] \<noteq>
     (Inl (HTTPException 400 ''Required columns not found in CSV file''), []) \<and>
   load_data example_isnan example_strptime example_to_float ''carol.csv''
       (Rows [[''Glukose-Werte''], [''14-02-2021 10:30'', ''105'']]) Committed [] =
     (Inl (HTTPException 500 ''An error occurred while processing the file''), [])"
  by (simp add: example_defs)

text \<open>
  C3, as the code has it. A data row after the header that has no field at a resolved
  column position is not treated like an empty field: extraction raises \<open>IndexError\<close>
  outside the per-row handler, the request ends with the 500 error, and no record of the
  file is persisted, whatever the other rows are.
\<close>

theorem short_row_aborts_ingestion:
  assumes "endswith filename ''.csv''" and "\<forall>r\<in>set pre. length r \<noteq> 19"
    and "length headers = 19"
    and "index_of headers timestamp_column = Some ti"
    and "index_of headers glucose_column = Some gi"
    and "r \<in> set rest" and "length r \<le> ti \<or> length r \<le> gi"
  shows "load_data_try isnan strptime to_float filename (Rows (pre @ headers # rest)) co tbl =
           (Inl IndexError, tbl) \<and>
         load_data isnan strptime to_float filename (Rows (pre @ headers # rest)) co tbl =
           (Inl (HTTPException 500 ''An error occurred while processing the file''), tbl)"
proof -
  have fh: "find_header (pre @ headers # rest) = (Some headers, rest)"
    using assms(2,3) by (simp add: find_header_skip)
  have "process_rows strptime to_float (hd (split_str CHR ''.'' filename)) ti gi rest []
          = Inl IndexError"
    using assms(6,7) by (intro process_rows_short) blast
  then show ?thesis
    using assms(1,4,5) fh by (simp add: load_data_def load_data_try_def)
qed

theorem short_row_aborts_ingestion_witness:
  "endswith ''alice.csv'' ''.csv'' \<and> length [''Glukose-Werte''] \<noteq> 19 \<and>
   length example_headers = 19 \<and>
   index_of example_headers timestamp_column = Some 4 \<and>
   index_of example_headers glucose_column = Some 7 \<and>
   [''FreeStyle'', ''SN1'', ''x'', ''0'', ''14-02-2021 10:45'']
     \<in> set [example_row ''14-02-2021 10:30'' ''105'',
             [''FreeStyle'', ''SN1'', ''x'', ''0'', ''14-02-2021 10:45'']] \<and>
   load_data example_isnan example_strptime example_to_float ''alice.csv''
       (Rows ([[''Glukose-Werte'']] @ example_headers #
              [example_row ''14-02-2021 10:30'' ''105'',
               [''FreeStyle'', ''SN1'', ''x'', ''0'', ''14-02-2021 10:45'']])) Committed [] =
     (Inl (HTTPException 500 ''An error occurred while processing the file''), [])"
proof -
  let ?short = "[''FreeStyle'', ''SN1'', ''x'', ''0'', ''14-02-2021 10:45'']"
  let ?rest = "[example_row ''14-02-2021 10:30'' ''105'', ?short]"
  have a: "endswith ''alice.csv'' ''.csv''"
    by (simp add: endswith_def)
  have b: "\<forall>r\<in>set [[''Glukose-Werte'']]. length r \<noteq> 19"
    by simp
  have m: "?short \<in> set ?rest"
    by simp
  have l: "length ?short \<le> 4 \<or> length ?short \<le> 7"
    by simp
  show ?thesis
    using a m
      short_row_aborts_ingestion [OF a b example_headers_length example_headers_timestamp
        example_headers_glucose m l, of example_isnan example_strptime example_to_float
        Committed "[]"]
    by (simp add: example_headers_length example_headers_timestamp example_headers_glucose)
qed

text \<open>
  The claim C3 as stated fails: the same file with the truncated row, and with that row
  padded with empty fields, have different results. The first persists nothing, the
  second persists the valid row.
\<close>

theorem short_row_not_like_empty_field_counterexample:
  "load_data example_isnan example_strptime example_to_float ''alice.csv''
       (Rows [example_headers, example_row ''14-02-2021 10:30'' ''105'',
              [''FreeStyle'', ''SN1'', ''x'', ''0'', ''14-02-2021 10:45'']]) Committed [] =
     (Inl (HTTPException 500 ''An error occurred while processing the file''), []) \<and>
   load_data example_isnan example_strptime example_to_float ''alice.csv''
       (Rows [example_headers, example_row ''14-02-2021 10:30'' ''105'',
              example_row ''14-02-2021 10:45'' []]) Committed [] =
     (Inr ''Data loaded successfully'',
      [\<lparr>row_id = Some 1, user_id = Some ''alice'',
        timestamp = Some (2021, 2, 14, 10, 30), glucose_value = Some (Number 105)\<rparr>])"
  by (simp add: example_defs)


text \<open>
  C4, as the code has it. A data row from which both fields can be extracted, and whose
  timestamp field or value field is rejected by its parser, is skipped and nothing else: the loop goes on with the next row with the pending records
  unchanged, and the request has exactly the result it has for the file without that
  row, so the rows around it are persisted as they would be without it.
\<close>

theorem parse_failure_skips_only_that_row:
  assumes "\<forall>r\<in>set pre. length r \<noteq> 19" and "length headers = 19"
    and "index_of headers timestamp_column = Some ti"
    and "index_of headers glucose_column = Some gi"
    and "getitem r ti = Some ts" and "getitem r gi = Some gs"
    and "strptime ts = None \<or> to_float gs = None"
  shows "process_rows strptime to_float uid ti gi (r # after) pending =
           process_rows strptime to_float uid ti gi after pending \<and>
         load_data isnan strptime to_float filename (Rows (pre @ headers # before @ r # after)) co tbl =
           load_data isnan strptime to_float filename (Rows (pre @ headers # before @ after)) co tbl"
proof -
  have skip: "process_rows strptime to_float u ti gi (r # after) p =
              process_rows strptime to_float u ti gi after p" for u p
    using assms(5-7) by (intro process_rows_skip) auto
  show ?thesis
    using skip load_data_skip_row [OF assms(1,2) skip assms(3,4)] by simp
qed

theorem parse_failure_skips_only_that_row_witness:
  "length [''Glukose-Werte''] \<noteq> 19 \<and> length example_headers = 19 \<and>
   index_of example_headers timestamp_column = Some 4 \<and>
   index_of example_headers glucose_column = Some 7 \<and>
   getitem (example_row ''2021/02/14'' ''98.5'') 4 = Some ''2021/02/14'' \<and>
   getitem (example_row ''2021/02/14'' ''98.5'') 7 = Some ''98.5'' \<and>
   (example_strptime ''2021/02/14'' = None \<or> example_to_float ''98.5'' = None) \<and>
   load_data example_isnan example_strptime example_to_float ''alice.csv''
       (Rows ([[''Glukose-Werte'']] @ example_headers #
              [example_row ''14-02-2021 10:30'' ''105''] @
              example_row ''2021/02/14'' ''98.5'' #
              [example_row ''14-02-2021 10:45'' ''98.5''])) Committed [] =
     (Inr ''Data loaded successfully'',
      [\<lparr>row_id = Some 1, user_id = Some ''alice'',
        timestamp = Some (2021, 2, 14, 10, 30), glucose_value = Some (Number 105)\<rparr>,
       \<lparr>row_id = Some 2, user_id = Some ''alice'',
        timestamp = Some (2021, 2, 14, 10, 45), glucose_value = Some (Number 98.5)\<rparr>])"
proof -
  have b: "\<forall>r\<in>set [[''Glukose-Werte'']]. length r \<noteq> 19"
    by simp
  have p: "example_strptime ''2021/02/14'' = None \<or> example_to_float ''98.5'' = None"
    by (simp add: example_strptime_def)
  have e: "load_data example_isnan example_strptime example_to_float ''alice.csv''
       (Rows ([[''Glukose-Werte'']] @ example_headers #
              [example_row ''14-02-2021 10:30'' ''105''] @
              [example_row ''14-02-2021 10:45'' ''98.5''])) Committed [] =
     (Inr ''Data loaded successfully'',
      [\<lparr>row_id = Some 1, user_id = Some ''alice'',
        timestamp = Some (2021, 2, 14, 10, 30), glucose_value = Some (Number 105)\<rparr>,
       \<lparr>row_id = Some 2, user_id = Some ''alice'',
        timestamp = Some (2021, 2, 14, 10, 45), glucose_value = Some (Number 98.5)\<rparr>])"
    by (simp add: example_defs)
  from parse_failure_skips_only_that_row [where isnan = example_isnan
        and strptime = example_strptime
        and to_float = example_to_float
        and after = "[example_row ''14-02-2021 10:45'' ''98.5'']" and filename = "''alice.csv''"
        and before = "[example_row ''14-02-2021 10:30'' ''105'']" and co = Committed
        and tbl = "[]" and ts = "''2021/02/14''" and gs = "''98.5''",
      OF b example_headers_length example_headers_timestamp example_headers_glucose
        example_row_fields p]
  have "load_data example_isnan example_strptime example_to_float ''alice.csv''
       (Rows ([[''Glukose-Werte'']] @ example_headers #
              [example_row ''14-02-2021 10:30'' ''105''] @
              example_row ''2021/02/14'' ''98.5'' #
              [example_row ''14-02-2021 10:45'' ''98.5''])) Committed [] =
        load_data example_isnan example_strptime example_to_float ''alice.csv''
       (Rows ([[''Glukose-Werte'']] @ example_headers #
              [example_row ''14-02-2021 10:30'' ''105''] @
              [example_row ''14-02-2021 10:45'' ''98.5''])) Committed []"
    by blast
  with e p show ?thesis
    by (simp add: example_headers_length example_headers_timestamp example_headers_glucose
        example_row_fields del: append.simps)
qed

text \<open>
  The claim C4 as stated fails: a row whose timestamp field does not parse and which
  ends before the value column stops the whole ingestion. The valid row before it is not
  persisted and the request is answered with the 500 error.
\<close>

theorem unparsable_timestamp_in_short_row_counterexample:
  "getitem [''FreeStyle'', ''SN1'', ''x'', ''0'', ''2021/02/14''] 4 = Some ''2021/02/14'' \<and>
   example_strptime ''2021/02/14'' = None \<and>
   load_data example_isnan example_strptime example_to_float ''alice.csv''
       (Rows [example_headers, example_row ''14-02-2021 10:30'' ''105'',
              [''FreeStyle'', ''SN1'', ''x'', ''0'', ''2021/02/14'']]) Committed [] =
     (Inl (HTTPException 500 ''An error occurred while processing the file''), [])"
  by (simp add: example_defs getitem_eq)

text \<open>
  C8, as the code has it. A data row from which both fields can be extracted, and in
  which the timestamp field or the value field is the empty string, or consists of
  spaces only and is rejected by its parser, is skipped and nothing else: the loop goes
  on with the next row with the pending records unchanged, and the request has exactly
  the result it has for the file without that row.
\<close>

theorem empty_field_skips_only_that_row:
  assumes "\<forall>r\<in>set pre. length r \<noteq> 19" and "length headers = 19"
    and "index_of headers timestamp_column = Some ti"
    and "index_of headers glucose_column = Some gi"
    and "getitem r ti = Some ts" and "getitem r gi = Some gs"
    and "ts = [] \<or> gs = [] \<or>
         (set ts \<subseteq> {CHR '' ''} \<and> strptime ts = None) \<or>
         (set gs \<subseteq> {CHR '' ''} \<and> to_float gs = None)"
  shows "process_rows strptime to_float uid ti gi (r # after) pending =
           process_rows strptime to_float uid ti gi after pending \<and>
         load_data isnan strptime to_float filename (Rows (pre @ headers # before @ r # after)) co tbl =
           load_data isnan strptime to_float filename (Rows (pre @ headers # before @ after)) co tbl"
proof -
  have c: "ts = [] \<or> gs = [] \<or> strptime ts = None \<or> to_float gs = None"
    using assms(7) by auto
  have skip: "process_rows strptime to_float u ti gi (r # after) p =
              process_rows strptime to_float u ti gi after p" for u p
    using assms(5,6) c by (rule process_rows_skip)
  show ?thesis
    using skip load_data_skip_row [OF assms(1,2) skip assms(3,4)] by simp
qed

theorem empty_field_skips_only_that_row_witness:
  "length example_headers = 19 \<and>
   index_of example_headers timestamp_column = Some 4 \<and>
   index_of example_headers glucose_column = Some 7 \<and>
   getitem (example_row ''14-02-2021 10:30'' []) 4 = Some ''14-02-2021 10:30'' \<and>
   getitem (example_row ''14-02-2021 10:30'' []) 7 = Some [] \<and>
   load_data example_isnan example_strptime example_to_float ''alice.csv''
       (Rows ([] @ example_headers # [] @
              example_row ''14-02-2021 10:30'' [] #
              [example_row ''14-02-2021 10:45'' ''98.5''])) Committed [] =
     (Inr ''Data loaded successfully'',
      [\<lparr>row_id = Some 1, user_id = Some ''alice'',
        timestamp = Some (2021, 2, 14, 10, 45), glucose_value = Some (Number 98.5)\<rparr>]) \<and>
   getitem (example_row ''  '' ''105'') 4 = Some ''  '' \<and>
   example_strptime ''  '' = None \<and>
   load_data example_isnan example_strptime example_to_float ''alice.csv''
       (Rows ([] @ example_headers # [] @
              example_row ''  '' ''105'' #
              [example_row ''14-02-2021 10:45'' ''98.5''])) Committed [] =
     (Inr ''Data loaded successfully'',
      [\<lparr>row_id = Some 1, user_id = Some ''alice'',
        timestamp = Some (2021, 2, 14, 10, 45), glucose_value = Some (Number 98.5)\<rparr>])"
proof -
  have b: "\<forall>r\<in>set ([] :: row list). length r \<noteq> 19"
    by simp
  have p: "''14-02-2021 10:30'' = [] \<or> ([] :: string) = [] \<or>
           (set ''14-02-2021 10:30'' \<subseteq> {CHR '' ''} \<and> example_strptime ''14-02-2021 10:30'' = None) \<or>
           (set ([] :: string) \<subseteq> {CHR '' ''} \<and> example_to_float [] = None)"
    by simp
  have n: "example_strptime ''  '' = None"
    by (simp add: example_strptime_def)
  have q: "''  '' = [] \<or> ''105'' = [] \<or>
           (set ''  '' \<subseteq> {CHR '' ''} \<and> example_strptime ''  '' = None) \<or>
           (set ''105'' \<subseteq> {CHR '' ''} \<and> example_to_float ''105'' = None)"
    using n by simp
  have e: "load_data example_isnan example_strptime example_to_float ''alice.csv''
       (Rows ([] @ example_headers # [] @
              [example_row ''14-02-2021 10:45'' ''98.5''])) Committed [] =
     (Inr ''Data loaded successfully'',
      [\<lparr>row_id = Some 1, user_id = Some ''alice'',
        timestamp = Some (2021, 2, 14, 10, 45), glucose_value = Some (Number 98.5)\<rparr>])"
    by (simp add: example_defs)
  from empty_field_skips_only_that_row [where isnan = example_isnan
        and strptime = example_strptime and to_float = example_to_float
        and after = "[example_row ''14-02-2021 10:45'' ''98.5'']" and filename = "''alice.csv''"
        and before = "[]" and co = Committed and tbl = "[]"
        and ts = "''14-02-2021 10:30''" and gs = "[]",
      OF b example_headers_length example_headers_timestamp example_headers_glucose
        example_row_fields p]
  have 1: "load_data example_isnan example_strptime example_to_float ''alice.csv''
       (Rows ([] @ example_headers # [] @
              example_row ''14-02-2021 10:30'' [] #
              [example_row ''14-02-2021 10:45'' ''98.5''])) Committed [] =
        load_data example_isnan example_strptime example_to_float ''alice.csv''
       (Rows ([] @ example_headers # [] @
              [example_row ''14-02-2021 10:45'' ''98.5''])) Committed []"
    by blast
  from empty_field_skips_only_that_row [where isnan = example_isnan
        and strptime = example_strptime and to_float = example_to_float
        and after = "[example_row ''14-02-2021 10:45'' ''98.5'']" and filename = "''alice.csv''"
        and before = "[]" and co = Committed and tbl = "[]"
        and ts = "''  ''" and gs = "''105''",
      OF b example_headers_length example_headers_timestamp example_headers_glucose
        example_row_fields q]
  have 2: "load_data example_isnan example_strptime example_to_float ''alice.csv''
       (Rows ([] @ example_headers # [] @
              example_row ''  '' ''105'' #
              [example_row ''14-02-2021 10:45'' ''98.5''])) Committed [] =
        load_data example_isnan example_strptime example_to_float ''alice.csv''
       (Rows ([] @ example_headers # [] @
              [example_row ''14-02-2021 10:45'' ''98.5''])) Committed []"
    by blast
  from 1 2 e n show ?thesis
    by (simp add: example_headers_length example_headers_timestamp example_headers_glucose
        example_row_fields del: append.simps)
qed

text \<open>
  The claim C8 as stated fails: a row whose timestamp field is empty and which ends
  before the value column is not skipped. It stops the whole ingestion: the valid row
  before it is not persisted and the request is answered with the 500 error.
\<close>

theorem empty_timestamp_in_short_row_counterexample:
  "getitem [''FreeStyle'', ''SN1'', ''x'', ''0'', []] 4 = Some [] \<and>
   load_data example_isnan example_strptime example_to_float ''alice.csv''
       (Rows [example_headers, example_row ''14-02-2021 10:30'' ''105'',
              [''FreeStyle'', ''SN1'', ''x'', ''0'', []]]) Committed [] =
     (Inl (HTTPException 500 ''An error occurred while processing the file''), [])"
  by (simp add: example_defs getitem_eq)




text \<open>
  C10. For every value of the \<open>sort\<close> parameter the direction is descending exactly
  when \<open>desc\<close> occurs in it as a substring and ascending otherwise; the column is the
  parameter after \<open>replace('.asc', '')\<close> and then \<open>replace('.desc', '')\<close>; the query is
  ordered by that direction and column when the column is an attribute of the class, and
  otherwise the query is built with its filters, offset and limit and no ordering.
\<close>

theorem sort_parameter_handling:
  "(sort_direction s = Desc \<longleftrightarrow> (\<exists>u v. s = u @ ''desc'' @ v)) \<and>
   (sort_direction s = Asc \<longleftrightarrow> \<not> (\<exists>u v. s = u @ ''desc'' @ v)) \<and>
   sort_column s = replace_str ''.desc'' [] (replace_str ''.asc'' [] s) \<and>
   q_order_by (get_glucose_levels_query hasattr uid start stop page page_size s) =
     (if hasattr (sort_column s) then Some (sort_direction s, sort_column s) else None) \<and>
   (\<not> hasattr (sort_column s) \<longrightarrow>
      get_glucose_levels_query hasattr uid start stop page page_size s =
        \<lparr>q_filters = [UserIdEq uid] @ (case start of None \<Rightarrow> [] | Some t \<Rightarrow> [TimestampGe t])
                       @ (case stop of None \<Rightarrow> [] | Some t \<Rightarrow> [TimestampLe t]),
         q_order_by = None,
         q_offset = Some ((page - 1) * page_size), q_limit = Some page_size\<rparr>)"
  by (auto simp: sort_direction_def sort_column_def get_glucose_levels_query_def Let_def
      contains_str_iff split: option.splits)


theorem sort_parameter_handling_witness:
  "sort_direction ''glucose_value.desc'' = Desc \<and> sort_column ''glucose_value.desc'' = ''glucose_value'' \<and>
   sort_direction ''timestamp.asc'' = Asc \<and> sort_column ''timestamp.asc'' = ''timestamp'' \<and>
   q_order_by (get_glucose_levels_query
       (\<lambda>a. a \<in> set [''id'', ''user_id'', ''timestamp'', ''glucose_value''])
       ''alice'' (None :: nat option) None 1 10 ''glucose_value.desc'') =
     Some (Desc, ''glucose_value'') \<and>
   get_glucose_levels_query
       (\<lambda>a. a \<in> set [''id'', ''user_id'', ''timestamp'', ''glucose_value''])
       ''alice'' (None :: nat option) None 2 10 ''description'' =
     \<lparr>q_filters = [UserIdEq ''alice''], q_order_by = None,
      q_offset = Some 10, q_limit = Some 10\<rparr>"
proof -
  let ?attr = "\<lambda>a. a \<in> set [''id'', ''user_id'', ''timestamp'', ''glucose_value'']"
  have d: "sort_direction ''glucose_value.desc'' = Desc" "sort_direction ''timestamp.asc'' = Asc"
    by (simp_all add: sort_direction_def)
  have c: "sort_column ''glucose_value.desc'' = ''glucose_value''"
    "sort_column ''timestamp.asc'' = ''timestamp''" "sort_column ''description'' = ''description''"
    by (simp_all add: sort_column_def)
  have n: "\<not> ?attr (sort_column ''description'')"
    by (simp add: c)
  from sort_parameter_handling [of "''glucose_value.desc''" ?attr "''alice''" "None :: nat option" None 1 10]
  have "q_order_by (get_glucose_levels_query ?attr ''alice'' (None :: nat option) None 1 10
          ''glucose_value.desc'') = Some (Desc, ''glucose_value'')"
    by (simp add: c d)
  moreover
  from sort_parameter_handling [of "''description''" ?attr "''alice''" "None :: nat option" None 2 10] n
  have "get_glucose_levels_query ?attr ''alice'' (None :: nat option) None 2 10 ''description'' =
     \<lparr>q_filters = [UserIdEq ''alice''], q_order_by = None,
      q_offset = Some 10, q_limit = Some 10\<rparr>"
    by simp
  ultimately show ?thesis
    using c d by simp
qed

end
